theory Spec2Isabelle
  imports Main
begin

section \<open>Configuration\<close>

text \<open>
  The interface \<open>Data\<close> of the program: the configuration a well-typed stack supplies
  under the key \<open>kubevars\<close>. TypeScript numbers that hold TCP ports are integers here.
\<close>

record Data =
  isSingleNode :: bool
  dataStorePassword :: string
  frontendPort :: int
  usersPort :: int
  catalogPort :: int
  orderPort :: int
  cartPort :: int
  paymentPort :: int
  frontendNodeport :: int
  posNodeport :: int

text \<open>
  What the program holds at run time in \<open>kubeVars\<close>: the object parsed from the stack
  configuration. The interface is erased when the program is compiled, so any property
  may be \<open>undefined\<close> (\<open>None\<close>) there. A property that is there has the type the
  interface declares for it; an object with a property of another type (a number where
  the password is expected, say) is not a value of this record.
\<close>

record KubeVars =
  kv_isSingleNode :: "bool option"
  kv_dataStorePassword :: "string option"
  kv_frontendPort :: "int option"
  kv_usersPort :: "int option"
  kv_catalogPort :: "int option"
  kv_orderPort :: "int option"
  kv_cartPort :: "int option"
  kv_paymentPort :: "int option"
  kv_frontendNodeport :: "int option"
  kv_posNodeport :: "int option"

text \<open>The run-time object of a configuration that has every field of \<open>Data\<close>.\<close>

definition present :: "Data \<Rightarrow> KubeVars" where
  "present cfg =
     \<lparr> kv_isSingleNode = Some (isSingleNode cfg),
       kv_dataStorePassword = Some (dataStorePassword cfg),
       kv_frontendPort = Some (frontendPort cfg),
       kv_usersPort = Some (usersPort cfg),
       kv_catalogPort = Some (catalogPort cfg),
       kv_orderPort = Some (orderPort cfg),
       kv_cartPort = Some (cartPort cfg),
       kv_paymentPort = Some (paymentPort cfg),
       kv_frontendNodeport = Some (frontendNodeport cfg),
       kv_posNodeport = Some (posNodeport cfg) \<rparr>"

section \<open>Errors and the JavaScript operations the program uses\<close>

text \<open>
  The exceptions of a run: the two configuration errors of the library
  (\<open>ConfigMissingError\<close>, \<open>ConfigTypeError\<close>) and the TypeError of JavaScript.
\<close>

datatype error = ConfigMissingError | ConfigTypeError | TypeError

definition bindE :: "error + 'a \<Rightarrow> ('a \<Rightarrow> error + 'b) \<Rightarrow> error + 'b" where
  "bindE m f = (case m of Inl e \<Rightarrow> Inl e | Inr x \<Rightarrow> f x)"

text \<open>
  What \<open>JSON.parse\<close> makes of a stored text that is JSON: \<open>null\<close>, or a value whose
  properties can be read. A number, a string, a boolean or an array has none of the ten
  properties, so it reads as the object with every field undefined.
\<close>

datatype Parsed = ParsedNull | ParsedObject KubeVars

text \<open>
  The stack configuration under the key \<open>kubevars\<close>: no value, a text that is not JSON,
  or a text that is JSON, given by what it parses to.
\<close>

datatype StoredValue = NoValue | NotJSON | JSONText Parsed

text \<open>
  \<open>config.requireObject<Data>("kubevars")\<close>. The call throws a \<open>ConfigMissingError\<close>
  when the key has no value and a \<open>ConfigTypeError\<close> when \<open>JSON.parse\<close> rejects the
  stored text; otherwise it returns what the text parses to. The type parameter does not
  exist at run time, so no field is looked at.
\<close>

definition requireObject :: "StoredValue \<Rightarrow> error + Parsed" where
  "requireObject stored =
     (case stored of
        NoValue \<Rightarrow> Inl ConfigMissingError
      | NotJSON \<Rightarrow> Inl ConfigTypeError
      | JSONText v \<Rightarrow> Inr v)"

text \<open>\<open>c ? a : b\<close> on a property that may be undefined: \<open>undefined\<close> is falsy.\<close>

definition truthy :: "bool option \<Rightarrow> bool" where
  "truthy b = (case b of None \<Rightarrow> False | Some v \<Rightarrow> v)"

text \<open>
  \<open>x.toString()\<close> on a property that holds a number or is undefined. On \<open>undefined\<close> the
  method call throws a TypeError. On a number it returns the text JavaScript prints for
  that number; the text is not computed here: \<open>NumberString n\<close> stands for it.
\<close>

datatype NumberString = NumberString int

definition toString :: "int option \<Rightarrow> error + NumberString" where
  "toString x = (case x of None \<Rightarrow> Inl TypeError | Some n \<Rightarrow> Inr (NumberString n))"

text \<open>
  \<open>toBase64\<close>: \<open>Buffer.from(s).toString("base64")\<close>. A string stands for the bytes of
  its UTF-8 encoding, which is what \<open>Buffer.from\<close> makes of it; \<open>base64\<close> is the
  encoding of RFC 4648 with padding. \<open>Buffer.from(undefined)\<close> throws a TypeError.
\<close>

definition alphabet :: string where
  "alphabet = ''ABCDEFGHIJKLMNOPQRSTUVWXYZabcdefghijklmnopqrstuvwxyz0123456789+/''"

definition sextet :: "nat \<Rightarrow> char" where
  "sextet n = alphabet ! (n mod 64)"

fun base64 :: "nat list \<Rightarrow> string" where
  "base64 [] = []"
| "base64 [a] = [sextet (a div 4), sextet (a mod 4 * 16), CHR ''='', CHR ''='']"
| "base64 [a, b] =
     [sextet (a div 4), sextet (a mod 4 * 16 + b div 16), sextet (b mod 16 * 4), CHR ''='']"
| "base64 (a # b # c # rest) =
     [sextet (a div 4), sextet (a mod 4 * 16 + b div 16),
      sextet (b mod 16 * 4 + c div 64), sextet (c mod 64)] @ base64 rest"

definition string_toBase64 :: "string \<Rightarrow> string" where
  "string_toBase64 s = base64 (map of_char s)"

definition toBase64 :: "string option \<Rightarrow> error + string" where
  "toBase64 s = (case s of None \<Rightarrow> Inl TypeError | Some v \<Rightarrow> Inr (string_toBase64 v))"

section \<open>Resource descriptions\<close>

text \<open>
  The arguments of the four resource constructors the program calls, field by field.
  A label set, a selector and the data of a Secret are association lists in the order
  the source writes them. The text of the two seed scripts is left out: a ConfigMap
  keeps the keys of its data.
\<close>

type_synonym labels = "(string \<times> string) list"

record ObjectMeta =
  meta_name :: string
  meta_namespace :: "string option"
  meta_labels :: labels

record SecretArgs =
  sec_metadata :: ObjectMeta
  sec_type :: string
  sec_data :: "(string \<times> string) list"

record ConfigMapArgs =
  cm_metadata :: ObjectMeta
  cm_data_keys :: "string list"

text \<open>
  An entry of \<open>env\<close>: a name with a literal \<open>value\<close>, a name whose \<open>value\<close> is the text
  of a number of the configuration, or a name with a \<open>valueFrom.secretKeyRef\<close> (the name
  and the key of a Secret).
\<close>

datatype EnvVar =
  EnvValue string string
| EnvNumberValue string NumberString
| EnvSecretKeyRef string string string

record ContainerPort =
  cp_name :: string
  containerPort :: "int option"
  cp_protocol :: "string option"

record VolumeMount =
  mountPath :: string
  vm_name :: string

datatype Volume =
  EmptyDir string
| ConfigMapVolume string string

record Resources =
  requests :: "(string \<times> string) list option"
  limits :: "(string \<times> string) list option"

record Container =
  c_name :: string
  c_image :: string
  c_imagePullPolicy :: string
  c_resources :: "Resources option"
  c_ports :: "ContainerPort list"
  c_env :: "EnvVar list"
  c_volumeMounts :: "VolumeMount list"

record DeploymentArgs =
  d_metadata :: ObjectMeta
  d_matchLabels :: labels
  d_replicas :: int
  d_strategy :: "string option"
  d_templateLabels :: labels
  d_containers :: "Container list"
  d_volumes :: "Volume list"

record ServicePort =
  port :: "int option"
  sp_name :: string
  sp_protocol :: string
  targetPort :: "int option"
  nodePort :: "int option"

record ServiceArgs =
  s_metadata :: ObjectMeta
  s_type :: "string option"
  s_ports :: "ServicePort list"
  s_selector :: labels

text \<open>
  The options of a constructor call. \<open>dependsOn\<close> lists resource objects in the source;
  here a resource is referred to by its logical name, the first argument of its
  constructor.
\<close>

record Options =
  dependsOn :: "string list"
  parent :: "string option"

definition noOptions :: Options where
  "noOptions = \<lparr> dependsOn = [], parent = None \<rparr>"

datatype Resource =
  Secret string SecretArgs Options
| ConfigMap string ConfigMapArgs Options
| Deployment string DeploymentArgs Options
| Service string ServiceArgs Options

fun logicalName :: "Resource \<Rightarrow> string" where
  "logicalName (Secret n _ _) = n"
| "logicalName (ConfigMap n _ _) = n"
| "logicalName (Deployment n _ _) = n"
| "logicalName (Service n _ _) = n"

fun options :: "Resource \<Rightarrow> Options" where
  "options (Secret _ _ opts) = opts"
| "options (ConfigMap _ _ opts) = opts"
| "options (Deployment _ _ opts) = opts"
| "options (Service _ _ opts) = opts"

fun metadata :: "Resource \<Rightarrow> ObjectMeta" where
  "metadata (Secret _ a _) = sec_metadata a"
| "metadata (ConfigMap _ a _) = cm_metadata a"
| "metadata (Deployment _ a _) = d_metadata a"
| "metadata (Service _ a _) = s_metadata a"

section \<open>The program\<close>

definition frontendLoadbalancerConfig :: "KubeVars \<Rightarrow> ServicePort" where
  "frontendLoadbalancerConfig kubeVars =
     \<lparr> port = Some 80,
       sp_name = ''http-frontend'',
       sp_protocol = ''TCP'',
       targetPort = kv_frontendPort kubeVars,
       nodePort = None \<rparr>"

definition frontendNodeportConfig :: "KubeVars \<Rightarrow> ServicePort" where
  "frontendNodeportConfig kubeVars =
     \<lparr> port = Some 80,
       sp_name = ''http-frontend'',
       sp_protocol = ''TCP'',
       targetPort = kv_frontendPort kubeVars,
       nodePort = kv_frontendNodeport kubeVars \<rparr>"

definition passwords :: "string list" where
  "passwords =
     [''cart-redis-pass'', ''catalog-mongo-pass'', ''order-postgres-pass'',
      ''users-redis-pass'', ''users-mongo-pass'']"

text \<open>The body of the loop over \<open>passwords\<close>.\<close>

definition passwd :: "KubeVars \<Rightarrow> string \<Rightarrow> error + Resource" where
  "passwd kubeVars password =
     bindE (toBase64 (kv_dataStorePassword kubeVars)) (\<lambda>encoded.
       Inr (Secret password
         \<lparr> sec_metadata =
             \<lparr> meta_name = password, meta_namespace = Some ''default'', meta_labels = [] \<rparr>,
           sec_type = ''Opaque'',
           sec_data = [(''password'', encoded)] \<rparr>
         noOptions))"

definition catalogConfigMap :: Resource where
  "catalogConfigMap =
     ConfigMap ''catalog-config-map''
       \<lparr> cm_metadata =
           \<lparr> meta_name = ''catalog-initdb-config'', meta_namespace = None, meta_labels = [] \<rparr>,
         cm_data_keys = [''seed.js''] \<rparr>
       noOptions"

definition usersConfigMap :: Resource where
  "usersConfigMap =
     ConfigMap ''users-config-map''
       \<lparr> cm_metadata =
           \<lparr> meta_name = ''users-initdb-config'', meta_namespace = None, meta_labels = [] \<rparr>,
         cm_data_keys = [''seed.js''] \<rparr>
       noOptions"

definition cartRedisDeployment :: Resource where
  "cartRedisDeployment =
     Deployment ''cart-redis-deployment''
       \<lparr> d_metadata =
           \<lparr> meta_name = ''cart-redis'', meta_namespace = None,
             meta_labels =
               [(''app'', ''acmefit''), (''service'', ''cart-redis''), (''version'', ''1.0.0'')] \<rparr>,
         d_matchLabels = [(''app'', ''acmefit''), (''service'', ''cart-redis'')],
         d_replicas = 1,
         d_strategy = None,
         d_templateLabels = [(''app'', ''acmefit''), (''service'', ''cart-redis'')],
         d_containers =
           [\<lparr> c_name = ''cart-redis'',
              c_image = ''bitnami/redis'',
              c_imagePullPolicy = ''Always'',
              c_resources =
                Some \<lparr> requests = Some [(''cpu'', ''100m''), (''memory'', ''100Mi'')],
                       limits = None \<rparr>,
              c_ports =
                [\<lparr> cp_name = ''redis'', containerPort = Some 6379, cp_protocol = Some ''TCP'' \<rparr>],
              c_env =
                [EnvValue ''REDIS_HOST'' ''cart-redis'',
                 EnvSecretKeyRef ''REDIS_PASSWORD'' ''cart-redis-pass'' ''password''],
              c_volumeMounts =
                [\<lparr> mountPath = ''/var/lib/redis'', vm_name = ''cart-redis-data'' \<rparr>] \<rparr>],
         d_volumes = [EmptyDir ''cart-redis-data''] \<rparr>
       noOptions"

definition cartDeployment :: "KubeVars \<Rightarrow> error + Resource" where
  "cartDeployment kubeVars =
     bindE (toString (kv_cartPort kubeVars)) (\<lambda>cartPort_s.
     bindE (toString (kv_usersPort kubeVars)) (\<lambda>usersPort_s.
       Inr (Deployment ''cart-deployment''
         \<lparr> d_metadata =
             \<lparr> meta_name = ''cart'', meta_namespace = None,
               meta_labels = [(''app'', ''acmefit''), (''service'', ''cart'')] \<rparr>,
           d_matchLabels = [(''app'', ''acmefit''), (''service'', ''cart'')],
           d_replicas = 1,
           d_strategy = Some ''Recreate'',
           d_templateLabels = [(''app'', ''acmefit''), (''service'', ''cart'')],
           d_containers =
             [\<lparr> c_name = ''cart'',
                c_image = ''gcr.io/vmwarecloudadvocacy/acmeshop-cart:latest'',
                c_imagePullPolicy = ''Always'',
                c_resources =
                  Some \<lparr> requests = Some [(''cpu'', ''100m''), (''memory'', ''64Mi'')],
                         limits = Some [(''cpu'', ''500m''), (''memory'', ''256Mi'')] \<rparr>,
                c_ports =
                  [\<lparr> cp_name = ''cart'', containerPort = kv_cartPort kubeVars,
                     cp_protocol = None \<rparr>],
                c_env =
                  [EnvValue ''REDIS_HOST'' ''cart-redis'',
                   EnvSecretKeyRef ''REDIS_PASSWORD'' ''cart-redis-pass'' ''password'',
                   EnvValue ''REDIS_PORT'' ''6379'',
                   EnvNumberValue ''CART_PORT'' cartPort_s,
                   EnvValue ''USER_HOST'' ''users'',
                   EnvNumberValue ''USER_PORT'' usersPort_s,
                   EnvValue ''JAEGER_AGENT_HOST'' ''localhost'',
                   EnvValue ''JAGER_AGENT_PORT'' ''6831'',
                   EnvValue ''AUTH_MODE'' ''1''],
                c_volumeMounts =
                  [\<lparr> mountPath = ''/data'', vm_name = ''acmefit-cart-data'' \<rparr>] \<rparr>],
           d_volumes = [EmptyDir ''acmefit-cart-data''] \<rparr>
         noOptions)))"

definition catalogMongoDeployment :: Resource where
  "catalogMongoDeployment =
     Deployment ''catalogmongo-deployment''
       \<lparr> d_metadata =
           \<lparr> meta_name = ''catalog-mongo'', meta_namespace = None,
             meta_labels = [(''app'', ''acmefit''), (''service'', ''catalog-db'')] \<rparr>,
         d_matchLabels = [(''app'', ''acmefit''), (''service'', ''catalog-db'')],
         d_replicas = 1,
         d_strategy = None,
         d_templateLabels = [(''app'', ''acmefit''), (''service'', ''catalog-db'')],
         d_containers =
           [\<lparr> c_name = ''catalog-mongo'',
              c_image = ''mongo:4'',
              c_imagePullPolicy = ''Always'',
              c_resources = Some \<lparr> requests = None, limits = None \<rparr>,
              c_ports =
                [\<lparr> cp_name = ''catalog-mongo'', containerPort = Some 27017,
                   cp_protocol = Some ''TCP'' \<rparr>],
              c_env =
                [EnvValue ''MONGO_INITDB_ROOT_USERNAME'' ''mongoadmin'',
                 EnvValue ''MONGO_INITDB_DATABASE'' ''acmefit'',
                 EnvSecretKeyRef ''MONGO_INITDB_ROOT_PASSWORD'' ''catalog-mongo-pass'' ''password''],
              c_volumeMounts =
                [\<lparr> mountPath = ''/data/db'', vm_name = ''mongodata'' \<rparr>,
                 \<lparr> mountPath = ''/docker-entrypoint-initdb.d'', vm_name = ''mongo-initdb'' \<rparr>] \<rparr>],
         d_volumes =
           [EmptyDir ''mongodata'', ConfigMapVolume ''mongo-initdb'' ''catalog-initdb-config''] \<rparr>
       \<lparr> dependsOn = [logicalName catalogConfigMap], parent = None \<rparr>"

definition catalogDeployment :: "KubeVars \<Rightarrow> error + Resource" where
  "catalogDeployment kubeVars =
     bindE (toString (kv_catalogPort kubeVars)) (\<lambda>catalogPort_s.
     bindE (toString (kv_usersPort kubeVars)) (\<lambda>usersPort_s.
       Inr (Deployment ''catalog-deployment''
         \<lparr> d_metadata =
             \<lparr> meta_name = ''catalog'', meta_namespace = None,
               meta_labels = [(''app'', ''acmefit''), (''service'', ''catalog'')] \<rparr>,
           d_matchLabels = [(''app'', ''acmefit''), (''service'', ''catalog'')],
           d_replicas = 1,
           d_strategy = Some ''Recreate'',
           d_templateLabels = [(''app'', ''acmefit''), (''service'', ''catalog'')],
           d_containers =
             [\<lparr> c_name = ''catalog'',
                c_image = ''gcr.io/vmwarecloudadvocacy/acmeshop-catalog:latest'',
                c_imagePullPolicy = ''Always'',
                c_resources =
                  Some \<lparr> requests = Some [(''cpu'', ''100m''), (''memory'', ''64Mi'')],
                         limits = Some [(''cpu'', ''500m''), (''memory'', ''256Mi'')] \<rparr>,
                c_ports =
                  [\<lparr> cp_name = ''catalog'', containerPort = kv_catalogPort kubeVars,
                     cp_protocol = None \<rparr>],
                c_env =
                  [EnvValue ''CATALOG_DB_HOST'' ''catalog-mongo'',
                   EnvSecretKeyRef ''CATALOG_DB_PASSWORD'' ''catalog-mongo-pass'' ''password'',
                   EnvValue ''CATALOG_DB_PORT'' ''27017'',
                   EnvValue ''CATALOG_DB_USERNAME'' ''mongoadmin'',
                   EnvNumberValue ''CATALOG_PORT'' catalogPort_s,
                   EnvValue ''CATALOG_VERSION'' ''v1'',
                   EnvValue ''USERS_HOST'' ''users'',
                   EnvNumberValue ''USERS_PORT'' usersPort_s,
                   EnvValue ''JAEGER_AGENT_HOST'' ''localhost'',
                   EnvValue ''JAGER_AGENT_PORT'' ''6831''],
                c_volumeMounts =
                  [\<lparr> mountPath = ''/data'', vm_name = ''acmefit-catalog-data'' \<rparr>] \<rparr>],
           d_volumes = [EmptyDir ''acmefit-catalog-data''] \<rparr>
         noOptions)))"

definition paymentDeployment :: "KubeVars \<Rightarrow> error + Resource" where
  "paymentDeployment kubeVars =
     bindE (toString (kv_paymentPort kubeVars)) (\<lambda>paymentPort_s.
     bindE (toString (kv_usersPort kubeVars)) (\<lambda>usersPort_s.
       Inr (Deployment ''payment-deployment''
         \<lparr> d_metadata =
             \<lparr> meta_name = ''payment'', meta_namespace = None,
               meta_labels = [(''app'', ''acmefit''), (''service'', ''payment'')] \<rparr>,
           d_matchLabels = [(''app'', ''acmefit''), (''service'', ''payment'')],
           d_replicas = 1,
           d_strategy = Some ''Recreate'',
           d_templateLabels = [(''app'', ''acmefit''), (''service'', ''payment'')],
           d_containers =
             [\<lparr> c_name = ''payment'',
                c_image = ''gcr.io/vmwarecloudadvocacy/acmeshop-payment:latest'',
                c_imagePullPolicy = ''Always'',
                c_resources = None,
                c_ports =
                  [\<lparr> cp_name = ''payment'', containerPort = kv_paymentPort kubeVars,
                     cp_protocol = None \<rparr>],
                c_env =
                  [EnvNumberValue ''PAYMENT_PORT'' paymentPort_s,
                   EnvValue ''USERS_HOST'' ''users'',
                   EnvNumberValue ''USERS_PORT'' usersPort_s,
                   EnvValue ''JAEGER_AGENT_HOST'' ''localhost'',
                   EnvValue ''JAGER_AGENT_PORT'' ''6832''],
                c_volumeMounts = [] \<rparr>],
           d_volumes = [] \<rparr>
         noOptions)))"

definition orderPostgresDeployment :: Resource where
  "orderPostgresDeployment =
     Deployment ''order-postgres-deployment''
       \<lparr> d_metadata =
           \<lparr> meta_name = ''order-postgres'', meta_namespace = None,
             meta_labels = [(''app'', ''acmefit''), (''service'', ''order-db'')] \<rparr>,
         d_matchLabels = [(''app'', ''acmefit''), (''service'', ''order-db'')],
         d_replicas = 1,
         d_strategy = None,
         d_templateLabels = [(''app'', ''acmefit''), (''service'', ''order-db'')],
         d_containers =
           [\<lparr> c_name = ''postgres'',
              c_image = ''postgres:9.5'',
              c_imagePullPolicy = ''Always'',
              c_resources = None,
              c_ports =
                [\<lparr> cp_name = ''order-postgres'', containerPort = Some 5432,
                   cp_protocol = Some ''TCP'' \<rparr>],
              c_env =
                [EnvValue ''POSTGRES_USER'' ''pgbench'',
                 EnvSecretKeyRef ''POSTGRES_PASSWORD'' ''order-postgres-pass'' ''password'',
                 EnvSecretKeyRef ''PGBENCH_PASSWORD'' ''order-postgres-pass'' ''password'',
                 EnvValue ''PGDATA'' ''/var/lib/postgresql/data/pgdata''],
              c_volumeMounts =
                [\<lparr> mountPath = ''/var/lib/postgresql/data'', vm_name = ''postgredb'' \<rparr>] \<rparr>],
         d_volumes = [EmptyDir ''postgredb''] \<rparr>
       noOptions"

definition orderDeployment :: "KubeVars \<Rightarrow> error + Resource" where
  "orderDeployment kubeVars =
     bindE (toString (kv_orderPort kubeVars)) (\<lambda>orderPort_s.
     bindE (toString (kv_paymentPort kubeVars)) (\<lambda>paymentPort_s.
     bindE (toString (kv_usersPort kubeVars)) (\<lambda>usersPort_s.
       Inr (Deployment ''order-deployment''
         \<lparr> d_metadata =
             \<lparr> meta_name = ''order'', meta_namespace = None,
               meta_labels = [(''app'', ''acmefit''), (''service'', ''order'')] \<rparr>,
           d_matchLabels = [(''app'', ''acmefit''), (''service'', ''order'')],
           d_replicas = 1,
           d_strategy = Some ''Recreate'',
           d_templateLabels = [(''app'', ''acmefit''), (''service'', ''order'')],
           d_containers =
             [\<lparr> c_name = ''order'',
                c_image = ''gcr.io/vmwarecloudadvocacy/acmeshop-order:latest'',
                c_imagePullPolicy = ''Always'',
                c_resources =
                  Some \<lparr> requests = Some [(''cpu'', ''100m''), (''memory'', ''64Mi'')],
                         limits = Some [(''cpu'', ''500m''), (''memory'', ''256Mi'')] \<rparr>,
                c_ports =
                  [\<lparr> cp_name = ''order'', containerPort = kv_orderPort kubeVars,
                     cp_protocol = None \<rparr>],
                c_env =
                  [EnvValue ''ORDER_DB_HOST'' ''order-postgres'',
                   EnvSecretKeyRef ''ORDER_DB_PASSWORD'' ''order-postgres-pass'' ''password'',
                   EnvValue ''ORDER_DB_PORT'' ''5432'',
                   EnvValue ''AUTH_MODE'' ''1'',
                   EnvValue ''ORDER_DB_USERNAME'' ''pgbench'',
                   EnvSecretKeyRef ''PGPASSWORD'' ''order-postgres-pass'' ''password'',
                   EnvValue ''ORDER_AUTH_DB'' ''postgres'',
                   EnvNumberValue ''ORDER_PORT'' orderPort_s,
                   EnvNumberValue ''PAYMENT_PORT'' paymentPort_s,
                   EnvValue ''PAYMENT_HOST'' ''payment'',
                   EnvValue ''USER_HOST'' ''users'',
                   EnvNumberValue ''USER_PORT'' usersPort_s,
                   EnvValue ''JAEGER_AGENT_HOST'' ''localhost'',
                   EnvValue ''JAGER_AGENT_PORT'' ''6831''],
                c_volumeMounts =
                  [\<lparr> mountPath = ''/data'', vm_name = ''acmefit-order-data'' \<rparr>] \<rparr>],
           d_volumes = [EmptyDir ''acmefit-order-data''] \<rparr>
         noOptions))))"

definition usersMongoDeployment :: Resource where
  "usersMongoDeployment =
     Deployment ''usersmongo-deployment''
       \<lparr> d_metadata =
           \<lparr> meta_name = ''users-mongo'', meta_namespace = None,
             meta_labels = [(''app'', ''acmefit''), (''service'', ''users-mongo'')] \<rparr>,
         d_matchLabels = [(''app'', ''acmefit''), (''service'', ''users-mongo'')],
         d_replicas = 1,
         d_strategy = None,
         d_templateLabels = [(''app'', ''acmefit''), (''service'', ''users-mongo'')],
         d_containers =
           [\<lparr> c_name = ''users-mongo'',
              c_image = ''mongo:4'',
              c_imagePullPolicy = ''Always'',
              c_resources = Some \<lparr> requests = None, limits = None \<rparr>,
              c_ports =
                [\<lparr> cp_name = ''users-mongo'', containerPort = Some 27017,
                   cp_protocol = Some ''TCP'' \<rparr>],
              c_env =
                [EnvValue ''MONGO_INITDB_ROOT_USERNAME'' ''mongoadmin'',
                 EnvValue ''MONGO_INITDB_DATABASE'' ''acmefit'',
                 EnvSecretKeyRef ''MONGO_INITDB_ROOT_PASSWORD'' ''users-mongo-pass'' ''password''],
              c_volumeMounts =
                [\<lparr> mountPath = ''/data/db'', vm_name = ''mongodata'' \<rparr>,
                 \<lparr> mountPath = ''/docker-entrypoint-initdb.d'', vm_name = ''mongo-initdb'' \<rparr>] \<rparr>],
         d_volumes =
           [EmptyDir ''mongodata'', ConfigMapVolume ''mongo-initdb'' ''users-initdb-config''] \<rparr>
       \<lparr> dependsOn = [logicalName usersConfigMap], parent = None \<rparr>"

definition usersRedisDeployment :: Resource where
  "usersRedisDeployment =
     Deployment ''users-redis-deployment''
       \<lparr> d_metadata =
           \<lparr> meta_name = ''users-redis'', meta_namespace = None,
             meta_labels = [(''app'', ''acmefit''), (''service'', ''users-redis'')] \<rparr>,
         d_matchLabels = [(''app'', ''acmefit''), (''service'', ''users-redis'')],
         d_replicas = 1,
         d_strategy = None,
         d_templateLabels = [(''app'', ''acmefit''), (''service'', ''users-redis'')],
         d_containers =
           [\<lparr> c_name = ''users-redis'',
              c_image = ''bitnami/redis'',
              c_imagePullPolicy = ''Always'',
              c_resources =
                Some \<lparr> requests = Some [(''cpu'', ''100m''), (''memory'', ''100Mi'')],
                       limits = None \<rparr>,
              c_ports =
                [\<lparr> cp_name = ''redis'', containerPort = Some 6379, cp_protocol = Some ''TCP'' \<rparr>],
              c_env =
                [EnvValue ''REDIS_HOST'' ''users-redis'',
                 EnvSecretKeyRef ''REDIS_PASSWORD'' ''users-redis-pass'' ''password''],
              c_volumeMounts =
                [\<lparr> mountPath = ''/var/lib/redis'', vm_name = ''users-redis-data'' \<rparr>] \<rparr>],
         d_volumes = [EmptyDir ''users-redis-data''] \<rparr>
       noOptions"

definition usersDeployment :: "KubeVars \<Rightarrow> error + Resource" where
  "usersDeployment kubeVars =
     bindE (toString (kv_usersPort kubeVars)) (\<lambda>usersPort_s.
       Inr (Deployment ''users-deployment''
         \<lparr> d_metadata =
             \<lparr> meta_name = ''users'', meta_namespace = None,
               meta_labels = [(''app'', ''acmefit''), (''service'', ''users'')] \<rparr>,
           d_matchLabels = [(''app'', ''acmefit''), (''service'', ''users'')],
           d_replicas = 1,
           d_strategy = Some ''Recreate'',
           d_templateLabels = [(''app'', ''acmefit''), (''service'', ''users'')],
           d_containers =
             [\<lparr> c_name = ''users'',
                c_image = ''gcr.io/vmwarecloudadvocacy/acmeshop-user:latest'',
                c_imagePullPolicy = ''Always'',
                c_resources =
                  Some \<lparr> requests = Some [(''cpu'', ''100m''), (''memory'', ''64Mi'')],
                         limits = Some [(''cpu'', ''500m''), (''memory'', ''256Mi'')] \<rparr>,
                c_ports =
                  [\<lparr> cp_name = ''users'', containerPort = kv_usersPort kubeVars,
                     cp_protocol = None \<rparr>],
                c_env =
                  [EnvValue ''USERS_DB_HOST'' ''users-mongo'',
                   EnvSecretKeyRef ''USERS_DB_PASSWORD'' ''users-mongo-pass'' ''password'',
                   EnvValue ''USERS_DB_PORT'' ''27017'',
                   EnvValue ''USERS_DB_USERNAME'' ''mongoadmin'',
                   EnvValue ''REDIS_HOST'' ''users-redis'',
                   EnvSecretKeyRef ''REDIS_PASSWORD'' ''users-redis-pass'' ''password'',
                   EnvNumberValue ''USER_PORT'' usersPort_s,
                   EnvValue ''JAEGER_AGENT_HOST'' ''localhost'',
                   EnvValue ''JAGER_AGENT_PORT'' ''6831''],
                c_volumeMounts =
                  [\<lparr> mountPath = ''/data'', vm_name = ''acmefit-users-data'' \<rparr>] \<rparr>],
           d_volumes = [EmptyDir ''acmefit-users-data''] \<rparr>
         noOptions))"

text \<open>
  An entry of the table \<open>services\<close>. Its \<open>dependency\<close> is the Deployment object of the
  entry, referred to by the logical name that Deployment was constructed with.
\<close>

record K8sService =
  ks_name :: string
  ks_service :: string
  portnumber :: "int option"
  portname :: string
  dependency :: string

definition services :: "KubeVars \<Rightarrow> K8sService list" where
  "services kubeVars =
     [\<lparr> ks_name = ''cart-redis'', ks_service = ''cart-redis'', portnumber = Some 6379,
        portname = ''redis-cart'', dependency = ''cart-redis-deployment'' \<rparr>,
      \<lparr> ks_name = ''cart'', ks_service = ''cart'', portnumber = kv_cartPort kubeVars,
        portname = ''http-cart'', dependency = ''cart-deployment'' \<rparr>,
      \<lparr> ks_name = ''catalog-mongo'', ks_service = ''catalog-db'', portnumber = Some 27017,
        portname = ''mongo-catalog'', dependency = ''catalogmongo-deployment'' \<rparr>,
      \<lparr> ks_name = ''catalog'', ks_service = ''catalog'', portnumber = kv_catalogPort kubeVars,
        portname = ''http-catalog'', dependency = ''catalog-deployment'' \<rparr>,
      \<lparr> ks_name = ''payment'', ks_service = ''payment'', portnumber = kv_paymentPort kubeVars,
        portname = ''http-payment'', dependency = ''payment-deployment'' \<rparr>,
      \<lparr> ks_name = ''order-postgres'', ks_service = ''order-db'', portnumber = Some 5432,
        portname = ''postgres-order'', dependency = ''order-postgres-deployment'' \<rparr>,
      \<lparr> ks_name = ''order'', ks_service = ''order'', portnumber = kv_orderPort kubeVars,
        portname = ''http-order'', dependency = ''order-deployment'' \<rparr>,
      \<lparr> ks_name = ''users-mongo'', ks_service = ''users-mongo'', portnumber = Some 27017,
        portname = ''mongo-users'', dependency = ''usersmongo-deployment'' \<rparr>,
      \<lparr> ks_name = ''users-redis'', ks_service = ''users-redis'', portnumber = Some 6379,
        portname = ''redis-users'', dependency = ''users-redis-deployment'' \<rparr>,
      \<lparr> ks_name = ''users'', ks_service = ''users'', portnumber = kv_usersPort kubeVars,
        portname = ''http-users'', dependency = ''users-deployment'' \<rparr>]"

text \<open>The body of the loop over \<open>services\<close>.\<close>

definition svc :: "K8sService \<Rightarrow> Resource" where
  "svc service =
     Service (ks_name service @ ''-service'')
       \<lparr> s_metadata =
           \<lparr> meta_name = ks_name service, meta_namespace = None,
             meta_labels = [(''app'', ''acmefit''), (''service'', ks_service service)] \<rparr>,
         s_type = None,
         s_ports =
           [\<lparr> port = portnumber service, sp_name = portname service, sp_protocol = ''TCP'',
              targetPort = None, nodePort = None \<rparr>],
         s_selector = [(''app'', ''acmefit''), (''service'', ks_service service)] \<rparr>
       \<lparr> dependsOn = [dependency service], parent = None \<rparr>"

definition frontendDeployment :: "KubeVars \<Rightarrow> error + Resource" where
  "frontendDeployment kubeVars =
     bindE (toString (kv_frontendPort kubeVars)) (\<lambda>frontendPort_s.
     bindE (toString (kv_usersPort kubeVars)) (\<lambda>usersPort_s.
     bindE (toString (kv_catalogPort kubeVars)) (\<lambda>catalogPort_s.
     bindE (toString (kv_orderPort kubeVars)) (\<lambda>orderPort_s.
     bindE (toString (kv_cartPort kubeVars)) (\<lambda>cartPort_s.
       Inr (Deployment ''frontend-deployment''
         \<lparr> d_metadata =
             \<lparr> meta_name = ''frontend'', meta_namespace = None,
               meta_labels = [(''app'', ''acmefit''), (''service'', ''frontend'')] \<rparr>,
           d_matchLabels = [(''app'', ''acmefit''), (''service'', ''frontend'')],
           d_replicas = 1,
           d_strategy = Some ''Recreate'',
           d_templateLabels = [(''app'', ''acmefit''), (''service'', ''frontend'')],
           d_containers =
             [\<lparr> c_name = ''frontend'',
                c_image = ''gcr.io/vmwarecloudadvocacy/acmeshop-front-end:latest'',
                c_imagePullPolicy = ''Always'',
                c_resources = None,
                c_ports =
                  [\<lparr> cp_name = ''frontend'', containerPort = kv_frontendPort kubeVars,
                     cp_protocol = None \<rparr>],
                c_env =
                  [EnvNumberValue ''FRONTEND_PORT'' frontendPort_s,
                   EnvValue ''USERS_HOST'' ''users'',
                   EnvValue ''CATALOG_HOST'' ''catalog'',
                   EnvValue ''ORDER_HOST'' ''order'',
                   EnvValue ''CART_HOST'' ''cart'',
                   EnvNumberValue ''USERS_PORT'' usersPort_s,
                   EnvNumberValue ''CATALOG_PORT'' catalogPort_s,
                   EnvNumberValue ''ORDER_PORT'' orderPort_s,
                   EnvNumberValue ''CART_PORT'' cartPort_s,
                   EnvValue ''JAEGER_AGENT_HOST'' ''localhost'',
                   EnvValue ''JAGER_AGENT_PORT'' ''6832''],
                c_volumeMounts = [] \<rparr>],
           d_volumes = [] \<rparr>
         noOptions))))))"

definition frontendService :: "KubeVars \<Rightarrow> Resource" where
  "frontendService kubeVars =
     Service ''frontend-service''
       \<lparr> s_metadata =
           \<lparr> meta_name = ''frontend'', meta_namespace = None,
             meta_labels = [(''app'', ''acmefit''), (''service'', ''frontend'')] \<rparr>,
         s_type =
           Some (if truthy (kv_isSingleNode kubeVars) then ''NodePort'' else ''LoadBalancer''),
         s_ports =
           [if truthy (kv_isSingleNode kubeVars) then frontendNodeportConfig kubeVars
            else frontendLoadbalancerConfig kubeVars],
         s_selector = [(''app'', ''acmefit''), (''service'', ''frontend'')] \<rparr>
       \<lparr> dependsOn = [''frontend-deployment''], parent = None \<rparr>"

definition posDeployment :: Resource where
  "posDeployment =
     Deployment ''pos-deployment''
       \<lparr> d_metadata =
           \<lparr> meta_name = ''pos'', meta_namespace = None,
             meta_labels = [(''app'', ''acmefit''), (''service'', ''pos'')] \<rparr>,
         d_matchLabels = [(''app'', ''acmefit''), (''service'', ''pos'')],
         d_replicas = 1,
         d_strategy = Some ''Recreate'',
         d_templateLabels = [(''app'', ''acmefit''), (''service'', ''pos'')],
         d_containers =
           [\<lparr> c_name = ''pos'',
              c_image = ''gcr.io/vmwarecloudadvocacy/acmeshop-pos:v0.1.0-beta'',
              c_imagePullPolicy = ''Always'',
              c_resources = None,
              c_ports = [\<lparr> cp_name = ''pos'', containerPort = Some 7777, cp_protocol = None \<rparr>],
              c_env =
                [EnvValue ''HTTP_PORT'' ''7777'',
                 EnvValue ''DATASTORE'' ''remote'',
                 EnvValue ''FRONTEND_HOST'' ''frontend.default.svc.cluster.local''],
              c_volumeMounts = [] \<rparr>],
         d_volumes = [] \<rparr>
       noOptions"

definition posService :: "KubeVars \<Rightarrow> Resource" where
  "posService kubeVars =
     Service ''pos-service''
       \<lparr> s_metadata =
           \<lparr> meta_name = ''pos'', meta_namespace = None,
             meta_labels = [(''app'', ''acmefit''), (''service'', ''pos'')] \<rparr>,
         s_type = Some ''NodePort'',
         s_ports =
           [\<lparr> port = Some 7777, sp_name = ''http-pos'', sp_protocol = ''TCP'',
              targetPort = Some 7777, nodePort = kv_posNodeport kubeVars \<rparr>],
         s_selector = [(''app'', ''acmefit''), (''service'', ''pos'')] \<rparr>
       \<lparr> dependsOn = [logicalName posDeployment], parent = None \<rparr>"

text \<open>
  The statements of the program that construct a resource, in the order the module runs
  them. A statement either throws while its arguments are evaluated or constructs its
  resource, which registers it. The two exported values are left out.
\<close>

definition program :: "KubeVars \<Rightarrow> (error + Resource) list" where
  "program kubeVars =
     map (passwd kubeVars) passwords @
     [Inr catalogConfigMap,
      Inr usersConfigMap,
      Inr cartRedisDeployment,
      cartDeployment kubeVars,
      Inr catalogMongoDeployment,
      catalogDeployment kubeVars,
      paymentDeployment kubeVars,
      Inr orderPostgresDeployment,
      orderDeployment kubeVars,
      Inr usersMongoDeployment,
      Inr usersRedisDeployment,
      usersDeployment kubeVars] @
     map (\<lambda>service. Inr (svc service)) (services kubeVars) @
     [frontendDeployment kubeVars,
      Inr (frontendService kubeVars),
      Inr posDeployment,
      Inr (posService kubeVars)]"

text \<open>
  Running the statements: the resources constructed so far, and the exception that
  stopped the run, if one did.
\<close>

fun exec :: "(error + Resource) list \<Rightarrow> Resource list \<times> error option" where
  "exec [] = ([], None)"
| "exec (Inl e # rest) = ([], Some e)"
| "exec (Inr r # rest) = (case exec rest of (rs, e) \<Rightarrow> (r # rs, e))"

text \<open>
  The whole module, from the value stored under \<open>kubevars\<close>. When \<open>kubeVars\<close> is
  \<open>null\<close>, reading \<open>kubeVars.frontendPort\<close> for \<open>frontendLoadbalancerConfig\<close> throws a
  TypeError before the first constructor call.
\<close>

definition run :: "StoredValue \<Rightarrow> Resource list \<times> error option" where
  "run stored =
     (case requireObject stored of
        Inl e \<Rightarrow> ([], Some e)
      | Inr ParsedNull \<Rightarrow> ([], Some TypeError)
      | Inr (ParsedObject kubeVars) \<Rightarrow> exec (program kubeVars))"

text \<open>The resource graph the program builds from a configuration that has every field.\<close>

definition build :: "Data \<Rightarrow> Resource list" where
  "build cfg = fst (run (JSONText (ParsedObject (present cfg))))"

text \<open>
  The class \<open>ACMESecrets\<close> of \<open>secrets.ts\<close>: the Secrets its constructor creates as
  children of the component \<open>acmefitness-datastore-passwords\<close>.
\<close>

definition ACMESecrets :: "string list \<Rightarrow> string \<Rightarrow> Resource list" where
  "ACMESecrets pws secretValue =
     map (\<lambda>password.
       Secret password
         \<lparr> sec_metadata =
             \<lparr> meta_name = password, meta_namespace = Some ''default'', meta_labels = [] \<rparr>,
           sec_type = ''Opaque'',
           sec_data = [(''password'', string_toBase64 secretValue)] \<rparr>
         \<lparr> dependsOn = [], parent = Some ''acmefitness-datastore-passwords'' \<rparr>) pws"

section \<open>Reading a resource graph\<close>

datatype Kind = KSecret | KConfigMap | KDeployment | KService

fun kind :: "Resource \<Rightarrow> Kind" where
  "kind (Secret _ _ _) = KSecret"
| "kind (ConfigMap _ _ _) = KConfigMap"
| "kind (Deployment _ _ _) = KDeployment"
| "kind (Service _ _ _) = KService"

definition resourceName :: "Resource \<Rightarrow> string" where
  "resourceName r = meta_name (metadata r)"

definition ofKind :: "Kind \<Rightarrow> Resource list \<Rightarrow> Resource list" where
  "ofKind k g = filter (\<lambda>r. kind r = k) g"

definition named :: "string \<Rightarrow> Resource list \<Rightarrow> Resource list" where
  "named n g = filter (\<lambda>r. resourceName r = n) g"

definition notNamed :: "string \<Rightarrow> Resource list \<Rightarrow> Resource list" where
  "notNamed n g = filter (\<lambda>r. resourceName r \<noteq> n) g"

text \<open>The first resource of a kind with a given \<open>metadata.name\<close>.\<close>

definition lookup :: "Kind \<Rightarrow> string \<Rightarrow> Resource list \<Rightarrow> Resource option" where
  "lookup k n g = find (\<lambda>r. kind r = k \<and> resourceName r = n) g"

fun secretData :: "Resource \<Rightarrow> (string \<times> string) list" where
  "secretData (Secret _ a _) = sec_data a"
| "secretData _ = []"

fun serviceType :: "Resource \<Rightarrow> string option" where
  "serviceType (Service _ a _) = s_type a"
| "serviceType _ = None"

fun servicePorts :: "Resource \<Rightarrow> ServicePort list" where
  "servicePorts (Service _ a _) = s_ports a"
| "servicePorts _ = []"

fun selector :: "Resource \<Rightarrow> labels" where
  "selector (Service _ a _) = s_selector a"
| "selector _ = []"

text \<open>The labels a Deployment gives its pods: \<open>spec.template.metadata.labels\<close>.\<close>

fun podLabels :: "Resource \<Rightarrow> labels" where
  "podLabels (Deployment _ a _) = d_templateLabels a"
| "podLabels _ = []"

fun containers :: "Resource \<Rightarrow> Container list" where
  "containers (Deployment _ a _) = d_containers a"
| "containers _ = []"

fun volumes :: "Resource \<Rightarrow> Volume list" where
  "volumes (Deployment _ a _) = d_volumes a"
| "volumes _ = []"

definition containerPorts :: "Resource \<Rightarrow> int option list" where
  "containerPorts r = concat (map (\<lambda>c. map containerPort (c_ports c)) (containers r))"

fun secretRef :: "EnvVar \<Rightarrow> string list" where
  "secretRef (EnvSecretKeyRef _ secret _) = [secret]"
| "secretRef (EnvValue _ _) = []"
| "secretRef (EnvNumberValue _ _) = []"

text \<open>The names of the Secrets the environment of a workload refers to.\<close>

definition secretRefs :: "Resource \<Rightarrow> string list" where
  "secretRefs r = concat (map (\<lambda>c. concat (map secretRef (c_env c))) (containers r))"

fun configMapRef :: "Volume \<Rightarrow> string list" where
  "configMapRef (ConfigMapVolume _ cm) = [cm]"
| "configMapRef (EmptyDir _) = []"

text \<open>The names of the ConfigMaps a workload mounts.\<close>

definition configMapRefs :: "Resource \<Rightarrow> string list" where
  "configMapRefs r = concat (map configMapRef (volumes r))"

text \<open>An explicit ordering edge: \<open>r\<close> is declared to depend on \<open>d\<close>.\<close>

definition edge :: "Resource \<Rightarrow> Resource \<Rightarrow> bool" where
  "edge r d = (logicalName d \<in> set (dependsOn (options r)))"

text \<open>
  The workloads of a graph that a Service selects: those whose pods carry every label
  of the selector.
\<close>

definition selected :: "Resource list \<Rightarrow> Resource \<Rightarrow> Resource list" where
  "selected g s =
     filter (\<lambda>d. kind d = KDeployment \<and> set (selector s) \<subseteq> set (podLabels d)) g"

text \<open>\<open>a\<close> is constructed before \<open>b\<close> in the order of the program.\<close>

definition constructedBefore :: "Resource list \<Rightarrow> Resource \<Rightarrow> Resource \<Rightarrow> bool" where
  "constructedBefore g a b =
     (logicalName b \<in> set (map logicalName g) \<and>
      logicalName a \<in> set (takeWhile (\<lambda>n. n \<noteq> logicalName b) (map logicalName g)))"

text \<open>Whether one of the six port fields is missing from the run-time object.\<close>

definition portAbsent :: "KubeVars \<Rightarrow> bool" where
  "portAbsent kubeVars =
     (kv_frontendPort kubeVars = None \<or> kv_usersPort kubeVars = None \<or>
      kv_catalogPort kubeVars = None \<or> kv_orderPort kubeVars = None \<or>
      kv_cartPort kubeVars = None \<or> kv_paymentPort kubeVars = None)"

text \<open>The configuration of the repository's README.\<close>

definition scenario :: Data where
  "scenario =
     \<lparr> isSingleNode = True, dataStorePassword = ''helloworld'',
       frontendPort = 3000, usersPort = 8083, catalogPort = 8082, orderPort = 6000,
       cartPort = 5000, paymentPort = 9000, frontendNodeport = 30430, posNodeport = 30431 \<rparr>"

text \<open>The workloads that run the application, by \<open>metadata.name\<close>.\<close>

definition applicationWorkloads :: "string list" where
  "applicationWorkloads =
     [''frontend'', ''users'', ''catalog'', ''order'', ''cart'', ''payment'', ''pos'']"

text \<open>
  The workload \<open>w\<close> and the Service of the same name are both in the graph, and the
  container ports of the one are the ports of the other.
\<close>

definition portsAgree :: "Resource list \<Rightarrow> string \<Rightarrow> bool" where
  "portsAgree g w =
     (case (lookup KDeployment w g, lookup KService w g) of
        (Some d, Some s) \<Rightarrow>
          containerPorts d \<noteq> [] \<and> containerPorts d = map port (servicePorts s)
      | _ \<Rightarrow> False)"

text \<open>
  How many Secrets, ConfigMaps, workloads other than \<open>pos\<close>, Services other than
  \<open>pos\<close>, workloads named \<open>pos\<close> and Services named \<open>pos\<close> a graph holds.
\<close>

definition inventory :: "Resource list \<Rightarrow> nat \<times> nat \<times> nat \<times> nat \<times> nat \<times> nat" where
  "inventory g =
     (length (ofKind KSecret g),
      length (ofKind KConfigMap g),
      length (notNamed ''pos'' (ofKind KDeployment g)),
      length (notNamed ''pos'' (ofKind KService g)),
      length (named ''pos'' (ofKind KDeployment g)),
      length (named ''pos'' (ofKind KService g)))"

section \<open>Running the statements\<close>

lemma exec_ok: "\<forall>s \<in> set steps. \<not> isl s \<Longrightarrow> exec steps = (map projr steps, None)"
  by (induction steps rule: exec.induct) auto

lemma exec_error_in: "snd (exec steps) = Some e \<Longrightarrow> Inl e \<in> set steps"
  by (induction steps rule: exec.induct) (auto split: prod.splits)

lemma exec_error_ex: "\<exists>s \<in> set steps. isl s \<Longrightarrow> snd (exec steps) \<noteq> None"
  by (induction steps rule: exec.induct) (auto split: prod.splits)

lemma exec_Inr: "exec (Inr r # rest) = (r # fst (exec rest), snd (exec rest))"
  by (simp split: prod.splits)

section \<open>The fields of each resource\<close>

lemma present_fields:
  "kv_isSingleNode (present cfg) = Some (isSingleNode cfg)"
  "kv_dataStorePassword (present cfg) = Some (dataStorePassword cfg)"
  "kv_frontendPort (present cfg) = Some (frontendPort cfg)"
  "kv_usersPort (present cfg) = Some (usersPort cfg)"
  "kv_catalogPort (present cfg) = Some (catalogPort cfg)"
  "kv_orderPort (present cfg) = Some (orderPort cfg)"
  "kv_cartPort (present cfg) = Some (cartPort cfg)"
  "kv_paymentPort (present cfg) = Some (paymentPort cfg)"
  "kv_frontendNodeport (present cfg) = Some (frontendNodeport cfg)"
  "kv_posNodeport (present cfg) = Some (posNodeport cfg)"
  by (simp_all add: present_def)

lemma passwd_present:
  "kind (projr (passwd (present cfg) p)) = KSecret"
  "logicalName (projr (passwd (present cfg) p)) = p"
  "resourceName (projr (passwd (present cfg) p)) = p"
  "dependsOn (options (projr (passwd (present cfg) p))) = []"
  "secretData (projr (passwd (present cfg) p)) =
     [(''password'', string_toBase64 (dataStorePassword cfg))]"
  "\<not> isl (passwd (present cfg) p)"
  by (simp_all add: passwd_def present_def toBase64_def bindE_def resourceName_def noOptions_def)

lemma passwd_throws: "isl (passwd kubeVars p) = (kv_dataStorePassword kubeVars = None)"
  by (simp add: passwd_def toBase64_def bindE_def split: option.splits)

lemma passwd_error: "passwd kubeVars p = Inl e \<Longrightarrow> e = TypeError"
  by (simp add: passwd_def toBase64_def bindE_def split: option.splits)

lemma configMap_fields:
  "kind catalogConfigMap = KConfigMap"
  "logicalName catalogConfigMap = ''catalog-config-map''"
  "resourceName catalogConfigMap = ''catalog-initdb-config''"
  "dependsOn (options catalogConfigMap) = []"
  "kind usersConfigMap = KConfigMap"
  "logicalName usersConfigMap = ''users-config-map''"
  "resourceName usersConfigMap = ''users-initdb-config''"
  "dependsOn (options usersConfigMap) = []"
  by (simp_all add: catalogConfigMap_def usersConfigMap_def resourceName_def noOptions_def)

lemma cartRedisDeployment_fields:
  "kind cartRedisDeployment = KDeployment"
  "logicalName cartRedisDeployment = ''cart-redis-deployment''"
  "resourceName cartRedisDeployment = ''cart-redis''"
  "dependsOn (options cartRedisDeployment) = []"
  "podLabels cartRedisDeployment = [(''app'', ''acmefit''), (''service'', ''cart-redis'')]"
  "secretRefs cartRedisDeployment = [''cart-redis-pass'']"
  "configMapRefs cartRedisDeployment = []"
  "containerPorts cartRedisDeployment = [Some 6379]"
  by (simp_all add: cartRedisDeployment_def noOptions_def
      resourceName_def secretRefs_def configMapRefs_def containerPorts_def)

lemma cartDeployment_present:
  "kind (projr (cartDeployment (present cfg))) = KDeployment"
  "logicalName (projr (cartDeployment (present cfg))) = ''cart-deployment''"
  "resourceName (projr (cartDeployment (present cfg))) = ''cart''"
  "dependsOn (options (projr (cartDeployment (present cfg)))) = []"
  "podLabels (projr (cartDeployment (present cfg))) = [(''app'', ''acmefit''), (''service'', ''cart'')]"
  "secretRefs (projr (cartDeployment (present cfg))) = [''cart-redis-pass'']"
  "configMapRefs (projr (cartDeployment (present cfg))) = []"
  "containerPorts (projr (cartDeployment (present cfg))) = [Some (cartPort cfg)]"
  "\<not> isl (cartDeployment (present cfg))"
  by (simp_all add: cartDeployment_def present_def toString_def bindE_def noOptions_def
      resourceName_def secretRefs_def configMapRefs_def containerPorts_def)

lemma cartDeployment_throws:
  "isl (cartDeployment kubeVars) = (kv_cartPort kubeVars = None \<or> kv_usersPort kubeVars = None)"
  by (simp add: cartDeployment_def toString_def bindE_def split: option.splits)

lemma cartDeployment_error: "cartDeployment kubeVars = Inl e \<Longrightarrow> e = TypeError"
  by (simp add: cartDeployment_def toString_def bindE_def split: option.splits)

lemma catalogMongoDeployment_fields:
  "kind catalogMongoDeployment = KDeployment"
  "logicalName catalogMongoDeployment = ''catalogmongo-deployment''"
  "resourceName catalogMongoDeployment = ''catalog-mongo''"
  "dependsOn (options catalogMongoDeployment) = [''catalog-config-map'']"
  "podLabels catalogMongoDeployment = [(''app'', ''acmefit''), (''service'', ''catalog-db'')]"
  "secretRefs catalogMongoDeployment = [''catalog-mongo-pass'']"
  "configMapRefs catalogMongoDeployment = [''catalog-initdb-config'']"
  "containerPorts catalogMongoDeployment = [Some 27017]"
  by (simp_all add: catalogMongoDeployment_def noOptions_def catalogConfigMap_def
      resourceName_def secretRefs_def configMapRefs_def containerPorts_def)

lemma catalogDeployment_present:
  "kind (projr (catalogDeployment (present cfg))) = KDeployment"
  "logicalName (projr (catalogDeployment (present cfg))) = ''catalog-deployment''"
  "resourceName (projr (catalogDeployment (present cfg))) = ''catalog''"
  "dependsOn (options (projr (catalogDeployment (present cfg)))) = []"
  "podLabels (projr (catalogDeployment (present cfg))) = [(''app'', ''acmefit''), (''service'', ''catalog'')]"
  "secretRefs (projr (catalogDeployment (present cfg))) = [''catalog-mongo-pass'']"
  "configMapRefs (projr (catalogDeployment (present cfg))) = []"
  "containerPorts (projr (catalogDeployment (present cfg))) = [Some (catalogPort cfg)]"
  "\<not> isl (catalogDeployment (present cfg))"
  by (simp_all add: catalogDeployment_def present_def toString_def bindE_def noOptions_def
      resourceName_def secretRefs_def configMapRefs_def containerPorts_def)

lemma catalogDeployment_throws:
  "isl (catalogDeployment kubeVars) = (kv_catalogPort kubeVars = None \<or> kv_usersPort kubeVars = None)"
  by (simp add: catalogDeployment_def toString_def bindE_def split: option.splits)

lemma catalogDeployment_error: "catalogDeployment kubeVars = Inl e \<Longrightarrow> e = TypeError"
  by (simp add: catalogDeployment_def toString_def bindE_def split: option.splits)

lemma paymentDeployment_present:
  "kind (projr (paymentDeployment (present cfg))) = KDeployment"
  "logicalName (projr (paymentDeployment (present cfg))) = ''payment-deployment''"
  "resourceName (projr (paymentDeployment (present cfg))) = ''payment''"
  "dependsOn (options (projr (paymentDeployment (present cfg)))) = []"
  "podLabels (projr (paymentDeployment (present cfg))) = [(''app'', ''acmefit''), (''service'', ''payment'')]"
  "secretRefs (projr (paymentDeployment (present cfg))) = []"
  "configMapRefs (projr (paymentDeployment (present cfg))) = []"
  "containerPorts (projr (paymentDeployment (present cfg))) = [Some (paymentPort cfg)]"
  "\<not> isl (paymentDeployment (present cfg))"
  by (simp_all add: paymentDeployment_def present_def toString_def bindE_def noOptions_def
      resourceName_def secretRefs_def configMapRefs_def containerPorts_def)

lemma paymentDeployment_throws:
  "isl (paymentDeployment kubeVars) = (kv_paymentPort kubeVars = None \<or> kv_usersPort kubeVars = None)"
  by (simp add: paymentDeployment_def toString_def bindE_def split: option.splits)

lemma paymentDeployment_error: "paymentDeployment kubeVars = Inl e \<Longrightarrow> e = TypeError"
  by (simp add: paymentDeployment_def toString_def bindE_def split: option.splits)

lemma orderPostgresDeployment_fields:
  "kind orderPostgresDeployment = KDeployment"
  "logicalName orderPostgresDeployment = ''order-postgres-deployment''"
  "resourceName orderPostgresDeployment = ''order-postgres''"
  "dependsOn (options orderPostgresDeployment) = []"
  "podLabels orderPostgresDeployment = [(''app'', ''acmefit''), (''service'', ''order-db'')]"
  "secretRefs orderPostgresDeployment = [''order-postgres-pass'', ''order-postgres-pass'']"
  "configMapRefs orderPostgresDeployment = []"
  "containerPorts orderPostgresDeployment = [Some 5432]"
  by (simp_all add: orderPostgresDeployment_def noOptions_def
      resourceName_def secretRefs_def configMapRefs_def containerPorts_def)

lemma orderDeployment_present:
  "kind (projr (orderDeployment (present cfg))) = KDeployment"
  "logicalName (projr (orderDeployment (present cfg))) = ''order-deployment''"
  "resourceName (projr (orderDeployment (present cfg))) = ''order''"
  "dependsOn (options (projr (orderDeployment (present cfg)))) = []"
  "podLabels (projr (orderDeployment (present cfg))) = [(''app'', ''acmefit''), (''service'', ''order'')]"
  "secretRefs (projr (orderDeployment (present cfg))) = [''order-postgres-pass'', ''order-postgres-pass'']"
  "configMapRefs (projr (orderDeployment (present cfg))) = []"
  "containerPorts (projr (orderDeployment (present cfg))) = [Some (orderPort cfg)]"
  "\<not> isl (orderDeployment (present cfg))"
  by (simp_all add: orderDeployment_def present_def toString_def bindE_def noOptions_def
      resourceName_def secretRefs_def configMapRefs_def containerPorts_def)

lemma orderDeployment_throws:
  "isl (orderDeployment kubeVars) = (kv_orderPort kubeVars = None \<or> kv_paymentPort kubeVars = None \<or> kv_usersPort kubeVars = None)"
  by (simp add: orderDeployment_def toString_def bindE_def split: option.splits)

lemma orderDeployment_error: "orderDeployment kubeVars = Inl e \<Longrightarrow> e = TypeError"
  by (simp add: orderDeployment_def toString_def bindE_def split: option.splits)

lemma usersMongoDeployment_fields:
  "kind usersMongoDeployment = KDeployment"
  "logicalName usersMongoDeployment = ''usersmongo-deployment''"
  "resourceName usersMongoDeployment = ''users-mongo''"
  "dependsOn (options usersMongoDeployment) = [''users-config-map'']"
  "podLabels usersMongoDeployment = [(''app'', ''acmefit''), (''service'', ''users-mongo'')]"
  "secretRefs usersMongoDeployment = [''users-mongo-pass'']"
  "configMapRefs usersMongoDeployment = [''users-initdb-config'']"
  "containerPorts usersMongoDeployment = [Some 27017]"
  by (simp_all add: usersMongoDeployment_def noOptions_def usersConfigMap_def
      resourceName_def secretRefs_def configMapRefs_def containerPorts_def)

lemma usersRedisDeployment_fields:
  "kind usersRedisDeployment = KDeployment"
  "logicalName usersRedisDeployment = ''users-redis-deployment''"
  "resourceName usersRedisDeployment = ''users-redis''"
  "dependsOn (options usersRedisDeployment) = []"
  "podLabels usersRedisDeployment = [(''app'', ''acmefit''), (''service'', ''users-redis'')]"
  "secretRefs usersRedisDeployment = [''users-redis-pass'']"
  "configMapRefs usersRedisDeployment = []"
  "containerPorts usersRedisDeployment = [Some 6379]"
  by (simp_all add: usersRedisDeployment_def noOptions_def
      resourceName_def secretRefs_def configMapRefs_def containerPorts_def)

lemma usersDeployment_present:
  "kind (projr (usersDeployment (present cfg))) = KDeployment"
  "logicalName (projr (usersDeployment (present cfg))) = ''users-deployment''"
  "resourceName (projr (usersDeployment (present cfg))) = ''users''"
  "dependsOn (options (projr (usersDeployment (present cfg)))) = []"
  "podLabels (projr (usersDeployment (present cfg))) = [(''app'', ''acmefit''), (''service'', ''users'')]"
  "secretRefs (projr (usersDeployment (present cfg))) = [''users-mongo-pass'', ''users-redis-pass'']"
  "configMapRefs (projr (usersDeployment (present cfg))) = []"
  "containerPorts (projr (usersDeployment (present cfg))) = [Some (usersPort cfg)]"
  "\<not> isl (usersDeployment (present cfg))"
  by (simp_all add: usersDeployment_def present_def toString_def bindE_def noOptions_def
      resourceName_def secretRefs_def configMapRefs_def containerPorts_def)

lemma usersDeployment_throws:
  "isl (usersDeployment kubeVars) = (kv_usersPort kubeVars = None)"
  by (simp add: usersDeployment_def toString_def bindE_def split: option.splits)

lemma usersDeployment_error: "usersDeployment kubeVars = Inl e \<Longrightarrow> e = TypeError"
  by (simp add: usersDeployment_def toString_def bindE_def split: option.splits)

lemma frontendDeployment_present:
  "kind (projr (frontendDeployment (present cfg))) = KDeployment"
  "logicalName (projr (frontendDeployment (present cfg))) = ''frontend-deployment''"
  "resourceName (projr (frontendDeployment (present cfg))) = ''frontend''"
  "dependsOn (options (projr (frontendDeployment (present cfg)))) = []"
  "podLabels (projr (frontendDeployment (present cfg))) = [(''app'', ''acmefit''), (''service'', ''frontend'')]"
  "secretRefs (projr (frontendDeployment (present cfg))) = []"
  "configMapRefs (projr (frontendDeployment (present cfg))) = []"
  "containerPorts (projr (frontendDeployment (present cfg))) = [Some (frontendPort cfg)]"
  "\<not> isl (frontendDeployment (present cfg))"
  by (simp_all add: frontendDeployment_def present_def toString_def bindE_def noOptions_def
      resourceName_def secretRefs_def configMapRefs_def containerPorts_def)

lemma frontendDeployment_throws:
  "isl (frontendDeployment kubeVars) = (kv_frontendPort kubeVars = None \<or> kv_usersPort kubeVars = None \<or> kv_catalogPort kubeVars = None \<or> kv_orderPort kubeVars = None \<or> kv_cartPort kubeVars = None)"
  by (simp add: frontendDeployment_def toString_def bindE_def split: option.splits)

lemma frontendDeployment_error: "frontendDeployment kubeVars = Inl e \<Longrightarrow> e = TypeError"
  by (simp add: frontendDeployment_def toString_def bindE_def split: option.splits)

lemma posDeployment_fields:
  "kind posDeployment = KDeployment"
  "logicalName posDeployment = ''pos-deployment''"
  "resourceName posDeployment = ''pos''"
  "dependsOn (options posDeployment) = []"
  "podLabels posDeployment = [(''app'', ''acmefit''), (''service'', ''pos'')]"
  "secretRefs posDeployment = []"
  "configMapRefs posDeployment = []"
  "containerPorts posDeployment = [Some 7777]"
  by (simp_all add: posDeployment_def noOptions_def
      resourceName_def secretRefs_def configMapRefs_def containerPorts_def)


lemma svc_fields:
  "kind (svc s) = KService"
  "logicalName (svc s) = ks_name s @ ''-service''"
  "resourceName (svc s) = ks_name s"
  "dependsOn (options (svc s)) = [dependency s]"
  "selector (svc s) = [(''app'', ''acmefit''), (''service'', ks_service s)]"
  "serviceType (svc s) = None"
  "map port (servicePorts (svc s)) = [portnumber s]"
  "map targetPort (servicePorts (svc s)) = [None]"
  "map nodePort (servicePorts (svc s)) = [None]"
  by (simp_all add: svc_def resourceName_def)

lemma frontendService_fields:
  "kind (frontendService kubeVars) = KService"
  "logicalName (frontendService kubeVars) = ''frontend-service''"
  "resourceName (frontendService kubeVars) = ''frontend''"
  "dependsOn (options (frontendService kubeVars)) = [''frontend-deployment'']"
  "selector (frontendService kubeVars) = [(''app'', ''acmefit''), (''service'', ''frontend'')]"
  by (simp_all add: frontendService_def resourceName_def)

lemma frontendService_present:
  "serviceType (frontendService (present cfg)) =
     Some (if isSingleNode cfg then ''NodePort'' else ''LoadBalancer'')"
  "servicePorts (frontendService (present cfg)) =
     [\<lparr> port = Some 80, sp_name = ''http-frontend'', sp_protocol = ''TCP'',
        targetPort = Some (frontendPort cfg),
        nodePort = (if isSingleNode cfg then Some (frontendNodeport cfg) else None) \<rparr>]"
  by (simp_all add: frontendService_def frontendNodeportConfig_def
      frontendLoadbalancerConfig_def truthy_def present_def)

lemma posService_fields:
  "kind (posService kubeVars) = KService"
  "logicalName (posService kubeVars) = ''pos-service''"
  "resourceName (posService kubeVars) = ''pos''"
  "dependsOn (options (posService kubeVars)) = [''pos-deployment'']"
  "selector (posService kubeVars) = [(''app'', ''acmefit''), (''service'', ''pos'')]"
  "serviceType (posService kubeVars) = Some ''NodePort''"
  "servicePorts (posService kubeVars) =
     [\<lparr> port = Some 7777, sp_name = ''http-pos'', sp_protocol = ''TCP'',
        targetPort = Some 7777, nodePort = kv_posNodeport kubeVars \<rparr>]"
  by (simp_all add: posService_def posDeployment_def resourceName_def)

lemmas resource_fields =
  present_fields passwd_present configMap_fields svc_fields
  frontendService_fields frontendService_present posService_fields
  cartRedisDeployment_fields cartDeployment_present catalogMongoDeployment_fields
  catalogDeployment_present paymentDeployment_present orderPostgresDeployment_fields
  orderDeployment_present usersMongoDeployment_fields usersRedisDeployment_fields
  usersDeployment_present frontendDeployment_present posDeployment_fields

section \<open>The graph of a complete configuration\<close>

lemma program_present_ok: "\<forall>s \<in> set (program (present cfg)). \<not> isl s"
  by (simp add: program_def passwords_def resource_fields)

lemma run_present:
  "run (JSONText (ParsedObject (present cfg))) = (map projr (program (present cfg)), None)"
  by (simp add: run_def requireObject_def exec_ok [OF program_present_ok])

text \<open>The 31 resources of the graph, in the order the program constructs them.\<close>

lemma build_resources:
  "build cfg =
     [projr (passwd (present cfg) ''cart-redis-pass''),
      projr (passwd (present cfg) ''catalog-mongo-pass''),
      projr (passwd (present cfg) ''order-postgres-pass''),
      projr (passwd (present cfg) ''users-redis-pass''),
      projr (passwd (present cfg) ''users-mongo-pass''),
      catalogConfigMap,
      usersConfigMap,
      cartRedisDeployment,
      projr (cartDeployment (present cfg)),
      catalogMongoDeployment,
      projr (catalogDeployment (present cfg)),
      projr (paymentDeployment (present cfg)),
      orderPostgresDeployment,
      projr (orderDeployment (present cfg)),
      usersMongoDeployment,
      usersRedisDeployment,
      projr (usersDeployment (present cfg))] @
     map svc (services (present cfg)) @
     [projr (frontendDeployment (present cfg)),
      frontendService (present cfg),
      posDeployment,
      posService (present cfg)]"
  by (simp add: build_def run_present program_def passwords_def)

lemmas graph_defs = build_resources services_def resource_fields

section \<open>The encoding on examples\<close>

lemma base64_rfc4648:
  "string_toBase64 '''' = ''''"
  "string_toBase64 ''f'' = ''Zg==''"
  "string_toBase64 ''fo'' = ''Zm8=''"
  "string_toBase64 ''foo'' = ''Zm9v''"
  "string_toBase64 ''foob'' = ''Zm9vYg==''"
  "string_toBase64 ''fooba'' = ''Zm9vYmE=''"
  "string_toBase64 ''foobar'' = ''Zm9vYmFy''"
  "string_toBase64 ''helloworld'' = ''aGVsbG93b3JsZA==''"
  by (simp_all add: string_toBase64_def sextet_def alphabet_def)

section \<open>Failures while the program runs\<close>

lemma exec_append_ok:
  "\<forall>s \<in> set pre. \<not> isl s \<Longrightarrow> fst (exec (pre @ rest)) = map projr pre @ fst (exec rest)"
proof (induction pre)
  case Nil
  then show ?case by simp
next
  case (Cons s pre)
  then show ?case by (cases s) (auto split: prod.splits)
qed

lemma program_length: "length (program kubeVars) = 31"
  by (simp add: program_def passwords_def services_def)

lemma program_errors: "Inl e \<in> set (program kubeVars) \<Longrightarrow> e = TypeError"
  using passwd_error [of kubeVars _ e] cartDeployment_error [of kubeVars e]
    catalogDeployment_error [of kubeVars e] paymentDeployment_error [of kubeVars e]
    orderDeployment_error [of kubeVars e] usersDeployment_error [of kubeVars e]
    frontendDeployment_error [of kubeVars e]
  by (auto simp add: program_def)

lemma run_unparsed:
  "run NotJSON = ([], Some ConfigTypeError)"
  "run (JSONText ParsedNull) = ([], Some TypeError)"
  by (simp_all add: run_def requireObject_def)

lemma run_object: "run (JSONText (ParsedObject kubeVars)) = exec (program kubeVars)"
  by (simp add: run_def requireObject_def)

lemma run_error: "snd (run (JSONText (ParsedObject kubeVars))) = Some e \<Longrightarrow> e = TypeError"
  by (auto simp add: run_object dest: exec_error_in program_errors)

lemma passwd_undefined: "kv_dataStorePassword kubeVars = None \<Longrightarrow> passwd kubeVars p = Inl TypeError"
  by (simp add: passwd_def toBase64_def bindE_def)

lemma run_password_absent:
  "kv_dataStorePassword kubeVars = None \<Longrightarrow>
   run (JSONText (ParsedObject kubeVars)) = ([], Some TypeError)"
  by (simp add: run_object program_def passwords_def passwd_undefined)

lemma constructed_prefix:
  assumes "kv_dataStorePassword kubeVars \<noteq> None"
  shows "8 \<le> length (fst (exec (program kubeVars)))"
proof -
  have "\<exists>rest. program kubeVars =
      (map (passwd kubeVars) passwords @
        [Inr catalogConfigMap, Inr usersConfigMap, Inr cartRedisDeployment]) @ rest"
    by (simp add: program_def)
  then obtain rest where split: "program kubeVars =
      (map (passwd kubeVars) passwords @
        [Inr catalogConfigMap, Inr usersConfigMap, Inr cartRedisDeployment]) @ rest"
    by blast
  have ok: "\<forall>s \<in> set (map (passwd kubeVars) passwords @
        [Inr catalogConfigMap, Inr usersConfigMap, Inr cartRedisDeployment]). \<not> isl s"
    using assms by (simp add: passwd_throws)
  show ?thesis
    unfolding split exec_append_ok [OF ok] by (simp add: passwords_def)
qed

lemma port_absent_throws:
  assumes "portAbsent kubeVars"
  shows "\<exists>s \<in> set (program kubeVars). isl s"
  using assms
  by (auto simp add: portAbsent_def program_def cartDeployment_throws catalogDeployment_throws
      paymentDeployment_throws orderDeployment_throws usersDeployment_throws
      frontendDeployment_throws)

lemma all_present_ok:
  assumes "kv_dataStorePassword kubeVars \<noteq> None" and "\<not> portAbsent kubeVars"
  shows "\<forall>s \<in> set (program kubeVars). \<not> isl s"
  using assms
  by (auto simp add: portAbsent_def program_def passwd_throws cartDeployment_throws
      catalogDeployment_throws paymentDeployment_throws orderDeployment_throws
      usersDeployment_throws frontendDeployment_throws)

section \<open>Shape of the graph\<close>

text \<open>
  A complete configuration yields 31 resources; no two share a logical name, and no two
  of one kind share a \<open>metadata.name\<close>.
\<close>

lemma build_length: "length (build cfg) = 31"
  by (simp add: graph_defs)

lemma build_distinct_names: "distinct (map logicalName (build cfg))"
  by (simp add: graph_defs)

lemma build_distinct_identities: "distinct (map (\<lambda>r. (kind r, resourceName r)) (build cfg))"
  by (simp add: graph_defs)

text \<open>
  The class \<open>ACMESecrets\<close>, given the five names and the shared password, creates
  Secrets with the names and data of the ones the program creates in its loop.
\<close>

lemma ACMESecrets_same_secrets:
  "map (\<lambda>r. (kind r, resourceName r, secretData r))
     (ACMESecrets passwords (dataStorePassword cfg)) =
   map (\<lambda>r. (kind r, resourceName r, secretData r)) (ofKind KSecret (build cfg))"
proof -
  have l: "map (\<lambda>r. (kind r, resourceName r, secretData r))
      (ACMESecrets passwords (dataStorePassword cfg)) =
    map (\<lambda>n. (KSecret, n, [(''password'', string_toBase64 (dataStorePassword cfg))])) passwords"
    by (simp add: ACMESecrets_def resourceName_def)
  have r: "map (\<lambda>r. (kind r, resourceName r, secretData r)) (ofKind KSecret (build cfg)) =
    map (\<lambda>n. (KSecret, n, [(''password'', string_toBase64 (dataStorePassword cfg))])) passwords"
    by (simp add: graph_defs ofKind_def passwords_def)
  show ?thesis
    by (simp only: l r)
qed

section \<open>Exposure of the two entry points\<close>

text \<open>
  C1. For every configuration the frontend Service is in the graph and its exposure
  follows \<open>isSingleNode\<close> alone: when the flag is true the type is \<open>NodePort\<close> and the
  port entry has \<open>nodePort = frontendNodeport\<close>; when it is false the type is
  \<open>LoadBalancer\<close> and the port entry has no \<open>nodePort\<close>.
\<close>

theorem frontend_service_exposure:
  "\<exists>s. lookup KService ''frontend'' (build cfg) = Some s \<and>
     (if isSingleNode cfg
      then serviceType s = Some ''NodePort'' \<and>
           map nodePort (servicePorts s) = [Some (frontendNodeport cfg)]
      else serviceType s = Some ''LoadBalancer'' \<and>
           map nodePort (servicePorts s) = [None])"
  by (simp add: graph_defs lookup_def)

text \<open>
  C1 at the README configuration, where \<open>isSingleNode\<close> is true and
  \<open>frontendNodeport\<close> is 30430.
\<close>

theorem frontend_service_exposure_witness:
  "\<exists>s. lookup KService ''frontend'' (build scenario) = Some s \<and>
     serviceType s = Some ''NodePort'' \<and> map nodePort (servicePorts s) = [Some 30430]"
  using frontend_service_exposure [of scenario] by (simp add: scenario_def)

text \<open>
  C2. For every configuration, whatever \<open>isSingleNode\<close> is, the point-of-sale Service
  has type \<open>NodePort\<close> and its port entry has \<open>nodePort = posNodeport\<close>.
\<close>

theorem pos_service_exposure:
  "\<exists>s. lookup KService ''pos'' (build cfg) = Some s \<and>
     serviceType s = Some ''NodePort'' \<and>
     map nodePort (servicePorts s) = [Some (posNodeport cfg)]"
  by (simp add: graph_defs lookup_def)

text \<open>
  C2 at the README configuration with \<open>isSingleNode\<close> set to false.
\<close>

theorem pos_service_exposure_witness:
  "\<exists>s. lookup KService ''pos'' (build (scenario\<lparr>isSingleNode := False\<rparr>)) = Some s \<and>
     serviceType s = Some ''NodePort'' \<and> map nodePort (servicePorts s) = [Some 30431]"
  using pos_service_exposure [of "scenario\<lparr>isSingleNode := False\<rparr>"] by (simp add: scenario_def)

text \<open>
  C10. For every configuration the port entry of the frontend Service has \<open>port\<close> 80
  and \<open>targetPort = frontendPort\<close>; between the two branches of \<open>isSingleNode\<close> it
  differs in the \<open>nodePort\<close> field only, which \<open>frontendNodeportConfig\<close> has and
  \<open>frontendLoadbalancerConfig\<close> lacks.
\<close>

theorem frontend_service_port:
  "(\<exists>s. lookup KService ''frontend'' (build cfg) = Some s \<and>
      servicePorts s =
        [\<lparr> port = Some 80, sp_name = ''http-frontend'', sp_protocol = ''TCP'',
           targetPort = Some (frontendPort cfg),
           nodePort = (if isSingleNode cfg then Some (frontendNodeport cfg) else None) \<rparr>]) \<and>
   frontendNodeportConfig (present cfg) =
     (frontendLoadbalancerConfig (present cfg))\<lparr>nodePort := Some (frontendNodeport cfg)\<rparr> \<and>
   nodePort (frontendLoadbalancerConfig (present cfg)) = None"
  by (simp add: graph_defs lookup_def frontendNodeportConfig_def frontendLoadbalancerConfig_def)

text \<open>
  C10 at the README configuration, with \<open>isSingleNode\<close> true and with it false.
\<close>

theorem frontend_service_port_witness:
  "(\<exists>s. lookup KService ''frontend'' (build scenario) = Some s \<and>
      map port (servicePorts s) = [Some 80] \<and>
      map targetPort (servicePorts s) = [Some 3000] \<and>
      map nodePort (servicePorts s) = [Some 30430]) \<and>
   (\<exists>s. lookup KService ''frontend'' (build (scenario\<lparr>isSingleNode := False\<rparr>)) = Some s \<and>
      map port (servicePorts s) = [Some 80] \<and>
      map targetPort (servicePorts s) = [Some 3000] \<and>
      map nodePort (servicePorts s) = [None])"
  using frontend_service_port [of scenario]
    frontend_service_port [of "scenario\<lparr>isSingleNode := False\<rparr>"]
  by (auto simp add: scenario_def)

section \<open>Container ports and Service ports\<close>

text \<open>
  C3, as stated, fails: at the README configuration the frontend container listens on
  3000 while the port of the frontend Service is 80.
\<close>

theorem frontend_ports_counterexample:
  "''frontend'' \<in> set applicationWorkloads \<and> \<not> portsAgree (build scenario) ''frontend''"
  by (simp add: applicationWorkloads_def portsAgree_def graph_defs lookup_def scenario_def)

text \<open>
  C3, amended. For every configuration the container port of each of users, catalog,
  order, cart, payment and pos equals the port of the Service of that workload. The
  frontend container port is \<open>frontendPort\<close>, which is the \<open>targetPort\<close> of the frontend
  Service; the port of that Service is 80, so the two agree exactly when
  \<open>frontendPort\<close> is 80.
\<close>

theorem container_port_is_service_port:
  "(\<forall>w \<in> set [''users'', ''catalog'', ''order'', ''cart'', ''payment'', ''pos''].
      portsAgree (build cfg) w) \<and>
   (\<exists>d s. lookup KDeployment ''frontend'' (build cfg) = Some d \<and>
      lookup KService ''frontend'' (build cfg) = Some s \<and>
      containerPorts d = [Some (frontendPort cfg)] \<and>
      map targetPort (servicePorts s) = [Some (frontendPort cfg)] \<and>
      map port (servicePorts s) = [Some 80]) \<and>
   (portsAgree (build cfg) ''frontend'' = (frontendPort cfg = 80))"
  by (simp add: portsAgree_def graph_defs lookup_def)

text \<open>
  C3, amended, at the README configuration.
\<close>

theorem container_port_is_service_port_witness:
  "portsAgree (build scenario) ''users'' \<and> portsAgree (build scenario) ''pos'' \<and>
   \<not> portsAgree (build scenario) ''frontend''"
  using container_port_is_service_port [of scenario] by (simp add: scenario_def)

section \<open>Secrets\<close>

text \<open>
  C4, as stated, fails: the workload \<open>cart-redis\<close> of the README configuration refers
  to the Secret \<open>cart-redis-pass\<close> and declares no dependency at all.
\<close>

theorem secret_edge_counterexample:
  "cartRedisDeployment \<in> set (build scenario) \<and>
   secretRefs cartRedisDeployment = [''cart-redis-pass''] \<and>
   dependsOn (options cartRedisDeployment) = []"
  by (simp add: build_resources cartRedisDeployment_fields)

text \<open>
  C4, amended. For every configuration and every workload, each Secret the environment
  of the workload refers to is in the graph and is constructed before the workload in
  the order of the program; the workload declares no ordering edge to it.
\<close>

theorem secret_constructed_before_workload:
  "\<forall>r \<in> set (ofKind KDeployment (build cfg)). \<forall>n \<in> set (secretRefs r).
     \<exists>s. lookup KSecret n (build cfg) = Some s \<and>
         constructedBefore (build cfg) s r \<and> \<not> edge r s"
  by (simp add: graph_defs ofKind_def lookup_def constructedBefore_def edge_def)

text \<open>
  C4, amended, at the workload \<open>cart-redis\<close> of the README configuration.
\<close>

theorem secret_constructed_before_workload_witness:
  "cartRedisDeployment \<in> set (ofKind KDeployment (build scenario)) \<and>
   ''cart-redis-pass'' \<in> set (secretRefs cartRedisDeployment) \<and>
   (\<exists>s. lookup KSecret ''cart-redis-pass'' (build scenario) = Some s \<and>
        constructedBefore (build scenario) s cartRedisDeployment \<and>
        \<not> edge cartRedisDeployment s)"
proof -
  have d: "cartRedisDeployment \<in> set (ofKind KDeployment (build scenario))"
    by (simp add: graph_defs ofKind_def)
  have n: "''cart-redis-pass'' \<in> set (secretRefs cartRedisDeployment)"
    by (simp add: cartRedisDeployment_fields)
  from d n bspec [OF bspec [OF secret_constructed_before_workload d] n] show ?thesis
    by (intro conjI)
qed

text \<open>
  C6. For every configuration the Secrets of the graph are exactly five, named
  \<open>cart-redis-pass\<close>, \<open>catalog-mongo-pass\<close>, \<open>order-postgres-pass\<close>,
  \<open>users-redis-pass\<close> and \<open>users-mongo-pass\<close>, and the data of each is the single key
  \<open>password\<close> with the base64 encoding of \<open>dataStorePassword\<close>.
\<close>

theorem secrets_created:
  "map (\<lambda>r. (resourceName r, secretData r)) (ofKind KSecret (build cfg)) =
   map (\<lambda>n. (n, [(''password'', string_toBase64 (dataStorePassword cfg))]))
     [''cart-redis-pass'', ''catalog-mongo-pass'', ''order-postgres-pass'',
      ''users-redis-pass'', ''users-mongo-pass'']"
  by (simp add: graph_defs ofKind_def)

text \<open>
  C6 at the README configuration, whose password \<open>helloworld\<close> encodes to
  \<open>aGVsbG93b3JsZA==\<close>.
\<close>

theorem secrets_created_witness:
  "map (\<lambda>r. (resourceName r, secretData r)) (ofKind KSecret (build scenario)) =
   [(''cart-redis-pass'', [(''password'', ''aGVsbG93b3JsZA=='')]),
    (''catalog-mongo-pass'', [(''password'', ''aGVsbG93b3JsZA=='')]),
    (''order-postgres-pass'', [(''password'', ''aGVsbG93b3JsZA=='')]),
    (''users-redis-pass'', [(''password'', ''aGVsbG93b3JsZA=='')]),
    (''users-mongo-pass'', [(''password'', ''aGVsbG93b3JsZA=='')])]"
  using secrets_created [of scenario] base64_rfc4648(8) by (simp add: scenario_def)

section \<open>Missing configuration\<close>

text \<open>
  C5, as stated, fails: with \<open>cartPort\<close> missing from the README configuration the
  program constructs the five Secrets, the two ConfigMaps and the workload
  \<open>cart-redis\<close>, and then stops with a TypeError, not a configuration error.
\<close>

theorem missing_field_counterexample:
  "kv_cartPort ((present scenario)\<lparr>kv_cartPort := None\<rparr>) = None \<and>
   map logicalName
     (fst (run (JSONText (ParsedObject ((present scenario)\<lparr>kv_cartPort := None\<rparr>))))) =
     [''cart-redis-pass'', ''catalog-mongo-pass'', ''order-postgres-pass'',
      ''users-redis-pass'', ''users-mongo-pass'', ''catalog-config-map'',
      ''users-config-map'', ''cart-redis-deployment''] \<and>
   snd (run (JSONText (ParsedObject ((present scenario)\<lparr>kv_cartPort := None\<rparr>)))) =
     Some TypeError"
  by (simp add: run_object program_def passwords_def exec_Inr
      passwd_def toBase64_def bindE_def present_def configMap_fields
      cartRedisDeployment_fields cartDeployment_def toString_def)

text \<open>
  C5, amended. When \<open>kubevars\<close> has no value at all, the run stops with a configuration
  error and no resource is constructed. When \<open>kubevars\<close> is an object whose fields, where
  present, have the types \<open>Data\<close> declares, a missing field gives no configuration error:
  without \<open>dataStorePassword\<close> the run stops with a TypeError before any resource; with
  the password but without one of the six port fields it stops with a TypeError after at
  least eight resources; with the password and the six ports it constructs all 31
  resources and no statement throws, whether or not \<open>isSingleNode\<close> and the two nodeport
  fields are there.
\<close>

theorem configuration_failures:
  "run NoValue = ([], Some ConfigMissingError) \<and>
   (kv_dataStorePassword kubeVars = None \<longrightarrow>
      run (JSONText (ParsedObject kubeVars)) = ([], Some TypeError)) \<and>
   (kv_dataStorePassword kubeVars \<noteq> None \<and> portAbsent kubeVars \<longrightarrow>
      snd (run (JSONText (ParsedObject kubeVars))) = Some TypeError \<and>
      8 \<le> length (fst (run (JSONText (ParsedObject kubeVars))))) \<and>
   (kv_dataStorePassword kubeVars \<noteq> None \<and> \<not> portAbsent kubeVars \<longrightarrow>
      snd (run (JSONText (ParsedObject kubeVars))) = None \<and>
      length (fst (run (JSONText (ParsedObject kubeVars)))) = 31)"
proof (intro conjI impI)
  show "run NoValue = ([], Some ConfigMissingError)"
    by (simp add: run_def requireObject_def)
next
  assume "kv_dataStorePassword kubeVars = None"
  then show "run (JSONText (ParsedObject kubeVars)) = ([], Some TypeError)"
    by (rule run_password_absent)
next
  assume a: "kv_dataStorePassword kubeVars \<noteq> None \<and> portAbsent kubeVars"
  then have "snd (exec (program kubeVars)) \<noteq> None"
    by (intro exec_error_ex port_absent_throws) simp
  then obtain e where e: "snd (run (JSONText (ParsedObject kubeVars))) = Some e"
    by (auto simp add: run_object)
  with run_error [OF e] show "snd (run (JSONText (ParsedObject kubeVars))) = Some TypeError"
    by simp
next
  assume a: "kv_dataStorePassword kubeVars \<noteq> None \<and> portAbsent kubeVars"
  then show "8 \<le> length (fst (run (JSONText (ParsedObject kubeVars))))"
    using constructed_prefix [of kubeVars] by (simp add: run_object)
next
  assume a: "kv_dataStorePassword kubeVars \<noteq> None \<and> \<not> portAbsent kubeVars"
  then have ok: "\<forall>s \<in> set (program kubeVars). \<not> isl s"
    by (intro all_present_ok) simp_all
  show "snd (run (JSONText (ParsedObject kubeVars))) = None"
    by (simp add: run_object exec_ok [OF ok])
  show "length (fst (run (JSONText (ParsedObject kubeVars)))) = 31"
    by (simp add: run_object exec_ok [OF ok] program_length)
qed

text \<open>
  C5, amended, at the README configuration without its password, without
  \<open>orderPort\<close>, and without \<open>isSingleNode\<close>.
\<close>

theorem configuration_failures_witness:
  "kv_dataStorePassword ((present scenario)\<lparr>kv_dataStorePassword := None\<rparr>) = None \<and>
   run (JSONText (ParsedObject ((present scenario)\<lparr>kv_dataStorePassword := None\<rparr>))) =
     ([], Some TypeError) \<and>
   kv_dataStorePassword ((present scenario)\<lparr>kv_orderPort := None\<rparr>) \<noteq> None \<and>
   portAbsent ((present scenario)\<lparr>kv_orderPort := None\<rparr>) \<and>
   snd (run (JSONText (ParsedObject ((present scenario)\<lparr>kv_orderPort := None\<rparr>)))) =
     Some TypeError \<and>
   8 \<le> length
     (fst (run (JSONText (ParsedObject ((present scenario)\<lparr>kv_orderPort := None\<rparr>))))) \<and>
   kv_dataStorePassword ((present scenario)\<lparr>kv_isSingleNode := None\<rparr>) \<noteq> None \<and>
   \<not> portAbsent ((present scenario)\<lparr>kv_isSingleNode := None\<rparr>) \<and>
   snd (run (JSONText (ParsedObject ((present scenario)\<lparr>kv_isSingleNode := None\<rparr>)))) =
     None \<and>
   length
     (fst (run (JSONText (ParsedObject ((present scenario)\<lparr>kv_isSingleNode := None\<rparr>))))) =
     31"
  using configuration_failures [of "(present scenario)\<lparr>kv_dataStorePassword := None\<rparr>"]
    configuration_failures [of "(present scenario)\<lparr>kv_orderPort := None\<rparr>"]
    configuration_failures [of "(present scenario)\<lparr>kv_isSingleNode := None\<rparr>"]
  by (simp add: present_def portAbsent_def)

section \<open>Selectors and ordering edges\<close>

text \<open>
  C7. For every configuration and every Service of the graph, the Service selects
  exactly one workload of the graph, which is the one it depends on, and its selector is
  equal to the labels that workload gives its pods; the selector is not empty.
\<close>

theorem service_selector_is_pod_labels:
  "\<forall>s \<in> set (ofKind KService (build cfg)).
     \<exists>d. selected (build cfg) s = [d] \<and> edge s d \<and>
         selector s = podLabels d \<and> selector s \<noteq> []"
  by (simp add: graph_defs ofKind_def selected_def edge_def)

text \<open>
  C7 at the point-of-sale Service of the README configuration.
\<close>

theorem service_selector_is_pod_labels_witness:
  "posService (present scenario) \<in> set (ofKind KService (build scenario)) \<and>
   (\<exists>d. selected (build scenario) (posService (present scenario)) = [d] \<and>
        edge (posService (present scenario)) d \<and>
        selector (posService (present scenario)) = podLabels d \<and>
        selector (posService (present scenario)) \<noteq> [])"
proof -
  have s: "posService (present scenario) \<in> set (ofKind KService (build scenario))"
    by (simp add: graph_defs ofKind_def)
  from s bspec [OF service_selector_is_pod_labels s] show ?thesis
    by (intro conjI)
qed

text \<open>
  C9. For every configuration, \<open>catalog-mongo\<close> mounts \<open>catalog-initdb-config\<close> and
  \<open>users-mongo\<close> mounts \<open>users-initdb-config\<close>; every workload that mounts a ConfigMap
  declares an ordering edge to that ConfigMap, which is constructed before it; and every
  Service declares an ordering edge to the one workload it selects, which is
  constructed before it.
\<close>

theorem explicit_ordering_edges:
  "(\<exists>d. lookup KDeployment ''catalog-mongo'' (build cfg) = Some d \<and>
        configMapRefs d = [''catalog-initdb-config'']) \<and>
   (\<exists>d. lookup KDeployment ''users-mongo'' (build cfg) = Some d \<and>
        configMapRefs d = [''users-initdb-config'']) \<and>
   (\<forall>r \<in> set (ofKind KDeployment (build cfg)). \<forall>n \<in> set (configMapRefs r).
      \<exists>c. lookup KConfigMap n (build cfg) = Some c \<and> edge r c \<and>
          constructedBefore (build cfg) c r) \<and>
   (\<forall>s \<in> set (ofKind KService (build cfg)).
      \<exists>d. selected (build cfg) s = [d] \<and> edge s d \<and> constructedBefore (build cfg) d s)"
proof (intro conjI)
  show "\<exists>d. lookup KDeployment ''catalog-mongo'' (build cfg) = Some d \<and>
        configMapRefs d = [''catalog-initdb-config'']"
    by (simp add: graph_defs lookup_def)
  show "\<exists>d. lookup KDeployment ''users-mongo'' (build cfg) = Some d \<and>
        configMapRefs d = [''users-initdb-config'']"
    by (simp add: graph_defs lookup_def)
  show "\<forall>r \<in> set (ofKind KDeployment (build cfg)). \<forall>n \<in> set (configMapRefs r).
      \<exists>c. lookup KConfigMap n (build cfg) = Some c \<and> edge r c \<and>
          constructedBefore (build cfg) c r"
    by (simp add: graph_defs ofKind_def lookup_def constructedBefore_def edge_def)
  show "\<forall>s \<in> set (ofKind KService (build cfg)).
      \<exists>d. selected (build cfg) s = [d] \<and> edge s d \<and> constructedBefore (build cfg) d s"
    by (simp add: graph_defs ofKind_def selected_def constructedBefore_def edge_def)
qed

text \<open>
  C9 at the workload \<open>catalog-mongo\<close> and the frontend Service of the README
  configuration.
\<close>

theorem explicit_ordering_edges_witness:
  "catalogMongoDeployment \<in> set (ofKind KDeployment (build scenario)) \<and>
   ''catalog-initdb-config'' \<in> set (configMapRefs catalogMongoDeployment) \<and>
   (\<exists>c. lookup KConfigMap ''catalog-initdb-config'' (build scenario) = Some c \<and>
        edge catalogMongoDeployment c \<and>
        constructedBefore (build scenario) c catalogMongoDeployment) \<and>
   frontendService (present scenario) \<in> set (ofKind KService (build scenario)) \<and>
   (\<exists>d. selected (build scenario) (frontendService (present scenario)) = [d] \<and>
        edge (frontendService (present scenario)) d \<and>
        constructedBefore (build scenario) d (frontendService (present scenario)))"
proof -
  have d: "catalogMongoDeployment \<in> set (ofKind KDeployment (build scenario))"
    by (simp add: graph_defs ofKind_def)
  have n: "''catalog-initdb-config'' \<in> set (configMapRefs catalogMongoDeployment)"
    by (simp add: catalogMongoDeployment_fields)
  have s: "frontendService (present scenario) \<in> set (ofKind KService (build scenario))"
    by (simp add: graph_defs ofKind_def)
  note all = explicit_ordering_edges [of scenario]
  from all have cm: "\<forall>r \<in> set (ofKind KDeployment (build scenario)). \<forall>n \<in> set (configMapRefs r).
      \<exists>c. lookup KConfigMap n (build scenario) = Some c \<and> edge r c \<and>
          constructedBefore (build scenario) c r"
    by (elim conjE)
  from all have sv: "\<forall>s \<in> set (ofKind KService (build scenario)).
      \<exists>d. selected (build scenario) s = [d] \<and> edge s d \<and>
          constructedBefore (build scenario) d s"
    by (elim conjE)
  from d n s bspec [OF bspec [OF cm d] n] bspec [OF sv s] show ?thesis
    by (intro conjI)
qed

section \<open>The README configuration\<close>

text \<open>
  C8, as stated, fails: besides the point-of-sale pair the graph holds 11 workloads and
  11 Services, not 10 of each.
\<close>

theorem scenario_inventory_counterexample:
  "inventory (build scenario) \<noteq> (5, 2, 10, 10, 1, 1)"
  by (simp add: inventory_def graph_defs ofKind_def named_def notNamed_def)

text \<open>
  C8, amended. The graph of the README configuration holds exactly 5 Secrets,
  2 ConfigMaps, 11 workloads other than point-of-sale (the ten of the table
  \<open>services\<close> and the frontend) with 11 Services of the same names, and one
  point-of-sale workload with one point-of-sale Service; the frontend Service has
  \<open>nodePort\<close> 30430 and the point-of-sale Service has \<open>nodePort\<close> 30431.
\<close>

theorem scenario_inventory:
  "inventory (build scenario) = (5, 2, 11, 11, 1, 1) \<and>
   set (map resourceName (ofKind KService (build scenario))) =
     set (map resourceName (ofKind KDeployment (build scenario))) \<and>
   (\<exists>s. lookup KService ''frontend'' (build scenario) = Some s \<and>
        map nodePort (servicePorts s) = [Some 30430]) \<and>
   (\<exists>s. lookup KService ''pos'' (build scenario) = Some s \<and>
        map nodePort (servicePorts s) = [Some 30431])"
  by (simp add: inventory_def graph_defs ofKind_def named_def notNamed_def lookup_def
      scenario_def insert_commute)

end
